theory Spec2Isabelle
  imports Main "HOL-Library.AList"
begin

section \<open>JavaScript values read by the client\<close>

text \<open>
  Everything the client inspects comes out of \<^verbatim>\<open>JSON.parse\<close> or \<^verbatim>\<open>res.json()\<close>.
  An object is its list of own properties in enumeration order; numbers are the
  integral ones; a string is its list of characters. \<open>None\<close> of type \<open>json option\<close>
  is JavaScript's \<^verbatim>\<open>undefined\<close>.
\<close>

datatype json =
    JNull
  | JBool bool
  | JNum int
  | JStr string
  | JArr "json list"
  | JObj "(string \<times> json) list"

datatype exn =
    TypeError
  | SyntaxError
  | FetchError string
  | IOError string
  | Error string

type_synonym bytes = string

text \<open>\<^verbatim>\<open>!v\<close> is false exactly for the truthy values.\<close>

fun truthy :: "json \<Rightarrow> bool" where
  "truthy JNull = False"
| "truthy (JBool b) = b"
| "truthy (JNum n) = (n \<noteq> 0)"
| "truthy (JStr s) = (s \<noteq> [])"
| "truthy (JArr xs) = True"
| "truthy (JObj kvs) = True"

fun truthy_opt :: "json option \<Rightarrow> bool" where
  "truthy_opt None = False"
| "truthy_opt (Some v) = truthy v"

text \<open>
  \<^verbatim>\<open>a === b\<close>. Two arrays or two objects are equal only when they are the same
  object; the operands compared by the client always come from two different parses,
  so they never are.
\<close>

fun js_strict_eq :: "json option \<Rightarrow> json option \<Rightarrow> bool" where
  "js_strict_eq None None = True"
| "js_strict_eq (Some JNull) (Some JNull) = True"
| "js_strict_eq (Some (JBool a)) (Some (JBool b)) = (a = b)"
| "js_strict_eq (Some (JNum a)) (Some (JNum b)) = (a = b)"
| "js_strict_eq (Some (JStr a)) (Some (JStr b)) = (a = b)"
| "js_strict_eq _ _ = False"

definition digit :: "nat \<Rightarrow> char" where
  "digit d = char_of (48 + d)"

fun show_nat :: "nat \<Rightarrow> string" where
  "show_nat n = (if n < 10 then [digit n] else show_nat (n div 10) @ [digit (n mod 10)])"

declare show_nat.simps [simp del]

definition show_int :: "int \<Rightarrow> string" where
  "show_int i = (if i < 0 then CHR ''-'' # show_nat (nat (- i)) else show_nat (nat i))"

fun join_with :: "string \<Rightarrow> string list \<Rightarrow> string" where
  "join_with sep [] = []"
| "join_with sep [s] = s"
| "join_with sep (s # t # ts) = s @ sep @ join_with sep (t # ts)"

text \<open>
  String conversion, as a template literal, a property key and \<^verbatim>\<open>URLSearchParams\<close>
  apply it. Inside an array \<^verbatim>\<open>null\<close> prints as the empty string.
\<close>

fun js_to_string :: "json \<Rightarrow> string" where
  "js_to_string JNull = ''null''"
| "js_to_string (JBool b) = (if b then ''true'' else ''false'')"
| "js_to_string (JNum n) = show_int n"
| "js_to_string (JStr s) = s"
| "js_to_string (JArr xs) =
     join_with '','' (map (\<lambda>x. if x = JNull then [] else js_to_string x) xs)"
| "js_to_string (JObj kvs) = ''[object Object]''"

fun js_to_string_opt :: "json option \<Rightarrow> string" where
  "js_to_string_opt None = ''undefined''"
| "js_to_string_opt (Some v) = js_to_string v"

definition index_keys :: "nat \<Rightarrow> string list" where
  "index_keys n = map show_nat [0..<n]"

text \<open>
  Property read \<^verbatim>\<open>v[k]\<close> on a parsed value: throws on \<^verbatim>\<open>null\<close>, looks an own
  property up otherwise. For a key that is no own property JavaScript may find
  \<^verbatim>\<open>length\<close> or an inherited member; none of those has any of the properties the client
  reads next, so \<^verbatim>\<open>undefined\<close> stands for them.
\<close>

fun js_get :: "json \<Rightarrow> string \<Rightarrow> exn + json option" where
  "js_get JNull k = Inl TypeError"
| "js_get (JObj kvs) k = Inr (map_of kvs k)"
| "js_get (JArr xs) k = Inr (map_of (zip (index_keys (length xs)) xs) k)"
| "js_get (JStr s) k = Inr (map_of (zip (index_keys (length s)) (map (\<lambda>c. JStr [c]) s)) k)"
| "js_get (JBool b) k = Inr None"
| "js_get (JNum n) k = Inr None"

fun js_get_opt :: "json option \<Rightarrow> string \<Rightarrow> exn + json option" where
  "js_get_opt None k = Inl TypeError"
| "js_get_opt (Some v) k = js_get v k"

text \<open>\<^verbatim>\<open>Object.keys(v)\<close>.\<close>

fun js_keys :: "json option \<Rightarrow> exn + string list" where
  "js_keys None = Inl TypeError"
| "js_keys (Some JNull) = Inl TypeError"
| "js_keys (Some (JObj kvs)) = Inr (map fst kvs)"
| "js_keys (Some (JArr xs)) = Inr (index_keys (length xs))"
| "js_keys (Some (JStr s)) = Inr (index_keys (length s))"
| "js_keys (Some (JBool b)) = Inr []"
| "js_keys (Some (JNum n)) = Inr []"

text \<open>\<^verbatim>\<open>for (const x of v)\<close> for a truthy \<open>v\<close>: arrays and strings are iterable.\<close>

fun js_iterate :: "json \<Rightarrow> exn + json list" where
  "js_iterate (JArr xs) = Inr xs"
| "js_iterate (JStr s) = Inr (map (\<lambda>c. JStr [c]) s)"
| "js_iterate _ = Inl TypeError"

text \<open>\<^verbatim>\<open>k in v\<close> for a key that is neither an index nor inherited.\<close>

fun js_in :: "string \<Rightarrow> json \<Rightarrow> exn + bool" where
  "js_in k (JObj kvs) = Inr (k \<in> fst ` set kvs)"
| "js_in k (JArr xs) = Inr False"
| "js_in k _ = Inl TypeError"

section \<open>The world outside the client\<close>

record basic_auth =
  user :: string
  password :: string

record client_options =
  secure :: bool
  basicAuth :: "basic_auth option"

text \<open>
  A URL is kept as the pieces the template of \<^verbatim>\<open>curl\<close> puts together; the query is a
  list of pairs, as \<^verbatim>\<open>URLSearchParams\<close> holds it.
\<close>

record url =
  protocol :: string
  host :: string
  pathname :: string
  search :: "(string \<times> string) list"

datatype form_part = FormText string | FormFile bytes string

datatype payload = TextBody string | FormBody "(string \<times> form_part) list"

record request =
  req_url :: url
  req_method :: string
  req_headers :: "(string \<times> string) list"
  req_body :: "payload option"

record response =
  status :: nat
  body :: bytes

text \<open>
  The library and the network, as parameters. \<open>fetch\<close> sees the requests made so far
  and answers with a response, or throws (an address that is no URL, a transport failure).
  \<open>json_parse\<close> is \<^verbatim>\<open>JSON.parse\<close>, \<open>None\<close> where it throws a \<^verbatim>\<open>SyntaxError\<close>.
\<close>

record env =
  fetch :: "request list \<Rightarrow> request \<Rightarrow> exn + response"
  json_parse :: "string \<Rightarrow> json option"
  json_stringify :: "json \<Rightarrow> string"
  base64 :: "string \<Rightarrow> string"
  path_join :: "string \<Rightarrow> string \<Rightarrow> string"
  write_fails :: "string \<Rightarrow> bool"

text \<open>The second argument of \<^verbatim>\<open>cfetch\<close>; an absent flag is \<open>False\<close>.\<close>

record params =
  http_method :: "string option"
  data :: "payload option"
  searchParams :: "(string \<times> string) list option"
  json :: bool
  blob :: bool

definition default_params :: params where
  "default_params =
     \<lparr>http_method = Some ''GET'', data = None, searchParams = None, json = True, blob = False\<rparr>"

text \<open>What \<^verbatim>\<open>cfetch\<close> returns: \<^verbatim>\<open>null\<close>, a parsed body or a \<^verbatim>\<open>Blob\<close>.\<close>

datatype jsval = Null | Json json | Blob bytes

fun payload_truthy :: "payload option \<Rightarrow> bool" where
  "payload_truthy None = False"
| "payload_truthy (Some (TextBody s)) = (s \<noteq> [])"
| "payload_truthy (Some (FormBody parts)) = True"

fun jsval_truthy :: "jsval \<Rightarrow> bool" where
  "jsval_truthy Null = False"
| "jsval_truthy (Json j) = truthy j"
| "jsval_truthy (Blob b) = True"

fun jsval_get :: "jsval \<Rightarrow> string \<Rightarrow> exn + json option" where
  "jsval_get Null k = Inl TypeError"
| "jsval_get (Json j) k = js_get j k"
| "jsval_get (Blob b) k = Inr None"

section \<open>The client and the objects it creates\<close>

text \<open>
  \<open>LogMessage\<close> is the listener \<^verbatim>\<open>connect\<close> installs, \<open>OnMessage n\<close> the closure
  \<^verbatim>\<open>onMessage\<close> of the \<open>n\<close>-th call of \<^verbatim>\<open>getImages\<close> that came to register one.
\<close>

datatype observer = LogMessage | OnMessage nat

record socket =
  sock_url :: string
  sock_headers :: "(string \<times> string) list"
  close_called :: bool
  resolved :: bool
  on_message :: "observer list"

record container =
  c_blob :: jsval
  c_image :: json

type_synonym images_response = "(string \<times> container list) list"

datatype settled = Pending | Resolved | Rejected exn

text \<open>
  The variables one call of \<^verbatim>\<open>getImages\<close> closes over, and its promise. A resolved
  promise holds the object \<open>outputImages\<close> itself.
\<close>

record images_op =
  promptId :: "json option"
  outputImages :: images_response
  promise :: settled

text \<open>
  An observer of operation \<open>n\<close> that waits for a response: for the history, or for one
  image. The latter remembers \<^verbatim>\<open>history.outputs\<close>, the node ids still to visit, the node
  it is at, that node's images still to fetch, \<open>imagesOutput\<close> as filled so far and the
  image asked for.
\<close>

datatype task =
    AwaitHistory nat "exn + response"
  | AwaitImage nat "json option" "string list" string "json list" "container list" json
      "exn + response"

text \<open>
  The instance fields \<open>serverAddress\<close>, \<open>clientId\<close>, \<open>options\<close> and \<open>ws\<close> (a handle
  into \<open>sockets\<close>), every socket constructed, every pending operation, the requests
  sent, oldest first, the observers waiting for a response, and the number of calls of
  \<^verbatim>\<open>connect\<close> that are suspended.
\<close>

record client =
  serverAddress :: string
  clientId :: string
  options :: "client_options option"
  ws :: "nat option"
  sockets :: "socket list"
  pending :: "images_op list"
  requests :: "request list"
  tasks :: "task list"
  suspended :: nat

definition is_secure :: "client \<Rightarrow> bool" where
  "is_secure c = (case options c of None \<Rightarrow> False | Some opts \<Rightarrow> secure opts)"

definition auth_headers :: "env \<Rightarrow> client \<Rightarrow> (string \<times> string) list" where
  "auth_headers env c =
     (case options c of
        None \<Rightarrow> []
      | Some opts \<Rightarrow>
          (case basicAuth opts of
             None \<Rightarrow> []
           | Some a \<Rightarrow>
               [(''Authorization'', ''Basic '' @ base64 env (user a @ '':'' @ password a))]))"

definition curl :: "client \<Rightarrow> string \<Rightarrow> url" where
  "curl c endpoint =
     \<lparr>protocol = (if is_secure c then ''https'' else ''http''),
      host = serverAddress c,
      pathname = ''/'' @ endpoint,
      search = [(''clientId'', clientId c)]\<rparr>"

text \<open>The request \<^verbatim>\<open>cfetch\<close> hands to \<^verbatim>\<open>fetch\<close>.\<close>

definition build_request :: "env \<Rightarrow> client \<Rightarrow> string \<Rightarrow> params \<Rightarrow> request" where
  "build_request env c endpoint ps =
     (let u = curl c endpoint;
          u = (case searchParams ps of None \<Rightarrow> u | Some sp \<Rightarrow> u\<lparr>search := sp\<rparr>);
          m = (if payload_truthy (data ps) \<or> http_method ps = Some ''POST'' then ''POST'' else ''GET'');
          headers = [(''Accept'', ''application/json''), (''Content-Type'', ''application/json'')]
                    @ auth_headers env c
      in \<lparr>req_url = u, req_method = m, req_headers = headers,
          req_body = (if payload_truthy (data ps) then data ps else None)\<rparr>)"

definition cfetch :: "env \<Rightarrow> client \<Rightarrow> string \<Rightarrow> params \<Rightarrow> client \<times> (exn + jsval)" where
  "cfetch env c endpoint ps =
     (let req = build_request env c endpoint ps;
          c' = c\<lparr>requests := requests c @ [req]\<rparr>
      in case fetch env (requests c) req of
           Inl e \<Rightarrow> (c', Inl e)
         | Inr res \<Rightarrow>
             if status res \<noteq> 200 then (c', Inr Null)
             else if json ps then
               (case json_parse env (body res) of
                  None \<Rightarrow> (c', Inl SyntaxError)
                | Some j \<Rightarrow>
                    if \<not> truthy j then (c', Inr Null)
                    else (case js_in ''error'' j of
                            Inl e \<Rightarrow> (c', Inl e)
                          | Inr True \<Rightarrow> (c', Inr Null)
                          | Inr False \<Rightarrow> (c', Inr (Json j))))
             else if blob ps then (c', Inr (Blob (body res)))
             else (c', Inr Null))"

text \<open>
  The two halves of \<^verbatim>\<open>cfetch\<close>, before and after \<^verbatim>\<open>await fetch(url, options)\<close>: the request
  goes out, and later the response is turned into the result, given the flags \<^verbatim>\<open>json\<close>
  and \<^verbatim>\<open>blob\<close> of the options.
\<close>

definition cfetch_request ::
  "env \<Rightarrow> client \<Rightarrow> string \<Rightarrow> params \<Rightarrow> client \<times> (exn + response)" where
  "cfetch_request env c endpoint ps =
     (let req = build_request env c endpoint ps
      in (c\<lparr>requests := requests c @ [req]\<rparr>, fetch env (requests c) req))"

definition cfetch_response :: "env \<Rightarrow> bool \<Rightarrow> bool \<Rightarrow> exn + response \<Rightarrow> exn + jsval" where
  "cfetch_response env as_json as_blob r =
     (case r of
        Inl e \<Rightarrow> Inl e
      | Inr res \<Rightarrow>
          if status res \<noteq> 200 then Inr Null
          else if as_json then
            (case json_parse env (body res) of
               None \<Rightarrow> Inl SyntaxError
             | Some j \<Rightarrow>
                 if \<not> truthy j then Inr Null
                 else (case js_in ''error'' j of
                         Inl e \<Rightarrow> Inl e
                       | Inr True \<Rightarrow> Inr Null
                       | Inr False \<Rightarrow> Inr (Json j)))
          else if as_blob then Inr (Blob (body res))
          else Inr Null)"

section \<open>Connection lifecycle\<close>

definition disconnect :: "client \<Rightarrow> client" where
  "disconnect c =
     (case ws c of
        None \<Rightarrow> c
      | Some h \<Rightarrow>
          c\<lparr>sockets := (sockets c)[h := (sockets c ! h)\<lparr>close_called := True\<rparr>],
            ws := None\<rparr>)"

definition ws_url :: "client \<Rightarrow> string" where
  "ws_url c =
     (if is_secure c then ''wss'' else ''ws'') @ ''://'' @ serverAddress c
       @ ''/ws?clientId='' @ clientId c"

text \<open>
  The part of \<^verbatim>\<open>connect\<close> after its \<^verbatim>\<open>if\<close>: the socket is constructed, gets the next free
  handle, and the listeners are installed. The promise \<^verbatim>\<open>connect\<close> returns is the socket's
  flag \<open>resolved\<close>.
\<close>

definition open_socket :: "env \<Rightarrow> client \<Rightarrow> client" where
  "open_socket env c =
     (let sock = \<lparr>sock_url = ws_url c, sock_headers = auth_headers env c,
                  close_called = False, resolved = False, on_message = [LogMessage]\<rparr>
      in c\<lparr>sockets := sockets c @ [sock], ws := Some (length (sockets c))\<rparr>)"

text \<open>
  A call of \<^verbatim>\<open>connect\<close>, up to where it first gives up control. Without a connection it
  runs through and constructs the socket. With one it runs \<^verbatim>\<open>disconnect\<close> and is then
  suspended at \<^verbatim>\<open>await this.disconnect()\<close>: the rest of it runs later, after whatever the
  caller does next without awaiting. \<open>suspended\<close> counts the calls so waiting.
\<close>

definition connect :: "env \<Rightarrow> client \<Rightarrow> client" where
  "connect env c =
     (if ws c \<noteq> None then (disconnect c)\<lparr>suspended := Suc (suspended c)\<rparr>
      else open_socket env c)"

text \<open>A suspended call of \<^verbatim>\<open>connect\<close> goes on: it constructs its socket.\<close>

definition connect_resume :: "env \<Rightarrow> client \<Rightarrow> client" where
  "connect_resume env c =
     (if suspended c = 0 then c
      else open_socket env (c\<lparr>suspended := suspended c - 1\<rparr>))"

text \<open>The listeners for \<^verbatim>\<open>open\<close>, \<^verbatim>\<open>close\<close> and \<^verbatim>\<open>error\<close> on socket \<open>h\<close>: the first one settles.\<close>

definition on_terminal_event :: "nat \<Rightarrow> client \<Rightarrow> client" where
  "on_terminal_event h c =
     (if h < length (sockets c) \<and> \<not> resolved (sockets c ! h)
      then c\<lparr>sockets := (sockets c)[h := (sockets c ! h)\<lparr>resolved := True\<rparr>]\<rparr>
      else c)"

text \<open>The sockets this client constructed and has not called \<^verbatim>\<open>close\<close> on.\<close>

definition open_sockets :: "client \<Rightarrow> nat list" where
  "open_sockets c = filter (\<lambda>h. \<not> close_called (sockets c ! h)) [0..<length (sockets c)]"

section \<open>Request operations\<close>

definition getEmbeddings :: "env \<Rightarrow> client \<Rightarrow> client \<times> (exn + jsval)" where
  "getEmbeddings env c = cfetch env c ''embeddings'' default_params"

definition getExtensions :: "env \<Rightarrow> client \<Rightarrow> client \<times> (exn + jsval)" where
  "getExtensions env c = cfetch env c ''extensions'' default_params"

definition queuePrompt :: "env \<Rightarrow> client \<Rightarrow> json \<Rightarrow> client \<times> (exn + jsval)" where
  "queuePrompt env c prompt =
     cfetch env c ''prompt''
       \<lparr>http_method = Some ''POST'',
        data = Some (TextBody (json_stringify env
                 (JObj [(''prompt'', prompt), (''client_id'', JStr (clientId c))]))),
        searchParams = None, json = False, blob = False\<rparr>"

definition interrupt :: "env \<Rightarrow> client \<Rightarrow> client \<times> (exn + jsval)" where
  "interrupt env c =
     cfetch env c ''interrupt''
       \<lparr>http_method = Some ''POST'', data = None, searchParams = None, json = False, blob = False\<rparr>"

definition editHistory :: "env \<Rightarrow> client \<Rightarrow> json \<Rightarrow> client \<times> (exn + jsval)" where
  "editHistory env c ps =
     cfetch env c ''history''
       \<lparr>http_method = Some ''POST'', data = Some (TextBody (json_stringify env ps)),
        searchParams = None, json = False, blob = False\<rparr>"

definition overwrite_part :: "bool option \<Rightarrow> (string \<times> form_part) list" where
  "overwrite_part overwrite =
     (case overwrite of
        None \<Rightarrow> []
      | Some b \<Rightarrow> [(''overwrite'', FormText (if b then ''true'' else ''false''))])"

definition uploadImage ::
  "env \<Rightarrow> client \<Rightarrow> bytes \<Rightarrow> string \<Rightarrow> bool option \<Rightarrow> client \<times> (exn + jsval)" where
  "uploadImage env c image_buf filename overwrite =
     cfetch env c ''upload/image''
       \<lparr>http_method = Some ''POST'',
        data = Some (FormBody ((''image'', FormFile image_buf filename) # overwrite_part overwrite)),
        searchParams = None, json = False, blob = False\<rparr>"

definition uploadMask ::
  "env \<Rightarrow> client \<Rightarrow> bytes \<Rightarrow> string \<Rightarrow> json \<Rightarrow> bool option \<Rightarrow> client \<times> (exn + jsval)" where
  "uploadMask env c image_buf filename originalRef overwrite =
     cfetch env c ''upload/mask''
       \<lparr>http_method = Some ''POST'',
        data = Some (FormBody ([(''image'', FormFile image_buf filename),
                                (''originalRef'', FormText (json_stringify env originalRef))]
                               @ overwrite_part overwrite)),
        searchParams = None, json = False, blob = False\<rparr>"

text \<open>The options \<^verbatim>\<open>getImage\<close> passes: no JSON, a \<^verbatim>\<open>Blob\<close>, and the image's three fields as the query.\<close>

definition view_params :: "json option \<Rightarrow> json option \<Rightarrow> json option \<Rightarrow> params" where
  "view_params filename subfolder ty =
     \<lparr>http_method = Some ''GET'', data = None,
      searchParams = Some [(''filename'', js_to_string_opt filename),
                           (''subfolder'', js_to_string_opt subfolder),
                           (''type'', js_to_string_opt ty)],
      json = False, blob = True\<rparr>"

definition getImage ::
  "env \<Rightarrow> client \<Rightarrow> json option \<Rightarrow> json option \<Rightarrow> json option \<Rightarrow> client \<times> (exn + jsval)" where
  "getImage env c filename subfolder ty = cfetch env c ''view'' (view_params filename subfolder ty)"

definition viewMetadata :: "env \<Rightarrow> client \<Rightarrow> string \<Rightarrow> string \<Rightarrow> client \<times> (exn + jsval)" where
  "viewMetadata env c folderName filename =
     cfetch env c (''view_metadata/'' @ folderName)
       \<lparr>http_method = Some ''GET'', data = None, searchParams = Some [(''filename'', filename)],
        json = False, blob = False\<rparr>"

definition getSystemStats :: "env \<Rightarrow> client \<Rightarrow> client \<times> (exn + jsval)" where
  "getSystemStats env c = cfetch env c ''system_start'' default_params"

definition getPrompt :: "env \<Rightarrow> client \<Rightarrow> client \<times> (exn + jsval)" where
  "getPrompt env c = cfetch env c ''prompt'' default_params"

text \<open>The template literal of \<^verbatim>\<open>getObjectInfo\<close>; an empty class name is falsy.\<close>

definition object_info_endpoint :: "string option \<Rightarrow> string" where
  "object_info_endpoint nodeClass =
     ''object_info''
       @ (case nodeClass of
            None \<Rightarrow> []
          | Some cls \<Rightarrow> if cls \<noteq> [] then ''/'' @ cls else [])
       @ '' : '' @ [CHR 0x27, CHR 0x27]"

definition getObjectInfo :: "env \<Rightarrow> client \<Rightarrow> string option \<Rightarrow> client \<times> (exn + jsval)" where
  "getObjectInfo env c nodeClass = cfetch env c (object_info_endpoint nodeClass) default_params"

definition history_endpoint :: "json option \<Rightarrow> string" where
  "history_endpoint pid =
     ''history'' @ (if truthy_opt pid then ''/'' @ js_to_string_opt pid else [])"

definition getHistory :: "env \<Rightarrow> client \<Rightarrow> json option \<Rightarrow> client \<times> (exn + jsval)" where
  "getHistory env c pid = cfetch env c (history_endpoint pid) default_params"

definition getQueue :: "env \<Rightarrow> client \<Rightarrow> client \<times> (exn + jsval)" where
  "getQueue env c = cfetch env c ''queue'' default_params"

section \<open>Saving collected images\<close>

type_synonym filesystem = "string \<rightharpoonup> bytes"

text \<open>
  One round of the inner loop of \<^verbatim>\<open>saveImages\<close>: \<^verbatim>\<open>img.blob.arrayBuffer()\<close> needs a
  \<^verbatim>\<open>Blob\<close>, \<^verbatim>\<open>join\<close> needs a string, \<^verbatim>\<open>writeFile\<close> replaces the file's content.
\<close>

definition save_image :: "env \<Rightarrow> string \<Rightarrow> container \<Rightarrow> filesystem \<Rightarrow> filesystem \<times> exn option" where
  "save_image env outputDir img fs =
     (case c_blob img of
        Blob arrayBuffer \<Rightarrow>
          (case js_get (c_image img) ''filename'' of
             Inr (Some (JStr filename)) \<Rightarrow>
               (let outputPath = path_join env outputDir filename
                in if write_fails env outputPath then (fs, Some (IOError outputPath))
                   else (fs(outputPath \<mapsto> arrayBuffer), None))
           | _ \<Rightarrow> (fs, Some TypeError))
      | _ \<Rightarrow> (fs, Some TypeError))"

fun save_node :: "env \<Rightarrow> string \<Rightarrow> container list \<Rightarrow> filesystem \<Rightarrow> filesystem \<times> exn option" where
  "save_node env outputDir [] fs = (fs, None)"
| "save_node env outputDir (img # imgs) fs =
     (case save_image env outputDir img fs of
        (fs', Some e) \<Rightarrow> (fs', Some e)
      | (fs', None) \<Rightarrow> save_node env outputDir imgs fs')"

fun save_nodes ::
  "env \<Rightarrow> string \<Rightarrow> images_response \<Rightarrow> string list \<Rightarrow> filesystem \<Rightarrow> filesystem \<times> exn option" where
  "save_nodes env outputDir response [] fs = (fs, None)"
| "save_nodes env outputDir response (nodeId # nodeIds) fs =
     (case map_of response nodeId of
        None \<Rightarrow> (fs, Some TypeError)
      | Some imgs \<Rightarrow>
          (case save_node env outputDir imgs fs of
             (fs', Some e) \<Rightarrow> (fs', Some e)
           | (fs', None) \<Rightarrow> save_nodes env outputDir response nodeIds fs'))"

text \<open>\<open>None\<close> as the response is \<^verbatim>\<open>null\<close> or \<^verbatim>\<open>undefined\<close>, replaced by \<^verbatim>\<open>{}\<close>.\<close>

definition saveImages ::
  "env \<Rightarrow> images_response option \<Rightarrow> string \<Rightarrow> filesystem \<Rightarrow> filesystem \<times> exn option" where
  "saveImages env response outputDir fs =
     (let r = (case response of None \<Rightarrow> [] | Some r \<Rightarrow> r)
      in save_nodes env outputDir r (map fst r) fs)"

section \<open>Submitting a job and collecting its images\<close>

text \<open>
  A listener runs until it gives up control at an \<^verbatim>\<open>await\<close> on a request in flight, and
  goes on when the response is in; in between, other frames and calls take their turn.
  A response arrives whole, status and body.
\<close>

datatype frame = Binary bytes | Text string

text \<open>Settling the promise of operation \<open>n\<close>: only a pending promise changes.\<close>

definition resolve :: "nat \<Rightarrow> client \<Rightarrow> client" where
  "resolve n c =
     (if promise (pending c ! n) = Pending
      then c\<lparr>pending := (pending c)[n := (pending c ! n)\<lparr>promise := Resolved\<rparr>]\<rparr>
      else c)"

definition reject :: "nat \<Rightarrow> exn \<Rightarrow> client \<Rightarrow> client" where
  "reject n e c =
     (if promise (pending c ! n) = Pending
      then c\<lparr>pending := (pending c)[n := (pending c ! n)\<lparr>promise := Rejected e\<rparr>]\<rparr>
      else c)"

text \<open>
  \<^verbatim>\<open>outputImages[nodeId] = imagesOutput\<close>. The key \<^verbatim>\<open>__proto__\<close> is the prototype accessor
  every object literal inherits: assigning an array to it adds no property.
\<close>

definition set_output :: "nat \<Rightarrow> string \<Rightarrow> container list \<Rightarrow> client \<Rightarrow> client" where
  "set_output n nodeId imagesOutput c =
     (if nodeId = ''__proto__'' then c
      else c\<lparr>pending := (pending c)[n := (pending c ! n)
             \<lparr>outputImages := AList.update nodeId imagesOutput (outputImages (pending c ! n))\<rparr>]\<rparr>)"

text \<open>\<^verbatim>\<open>this.ws?.on("message", l)\<close> and \<^verbatim>\<open>this.ws?.off("message", l)\<close>; \<^verbatim>\<open>off\<close> drops the
  listener's latest registration.\<close>

definition add_observer :: "observer \<Rightarrow> client \<Rightarrow> client" where
  "add_observer l c =
     (case ws c of
        None \<Rightarrow> c
      | Some h \<Rightarrow>
          c\<lparr>sockets := (sockets c)[h := (sockets c ! h)
             \<lparr>on_message := on_message (sockets c ! h) @ [l]\<rparr>]\<rparr>)"

definition remove_observer :: "observer \<Rightarrow> client \<Rightarrow> client" where
  "remove_observer l c =
     (case ws c of
        None \<Rightarrow> c
      | Some h \<Rightarrow>
          c\<lparr>sockets := (sockets c)[h := (sockets c ! h)
             \<lparr>on_message := rev (remove1 l (rev (on_message (sockets c ! h))))\<rparr>]\<rparr>)"

text \<open>
  What \<^verbatim>\<open>onMessage\<close> makes of a text frame before it awaits anything: the tests on
  \<^verbatim>\<open>message.type\<close>, \<^verbatim>\<open>message.data.node\<close> and \<^verbatim>\<open>message.data.prompt_id\<close>, against the
  \<^verbatim>\<open>promptId\<close> of its operation.
\<close>

datatype verdict = Ignore | Fail exn | Collect

definition dispatch :: "env \<Rightarrow> json option \<Rightarrow> string \<Rightarrow> verdict" where
  "dispatch env pid t =
     (case json_parse env t of
        None \<Rightarrow> Fail SyntaxError
      | Some message \<Rightarrow>
     (case js_get message ''type'' of
        Inl e \<Rightarrow> Fail e
      | Inr ty \<Rightarrow>
          if \<not> js_strict_eq ty (Some (JStr ''executing'')) then Ignore
          else
     (case js_get message ''data'' of
        Inl e \<Rightarrow> Fail e
      | Inr messageData \<Rightarrow>
     (case js_get_opt messageData ''node'' of
        Inl e \<Rightarrow> Fail e
      | Inr node \<Rightarrow>
          if truthy_opt node then Ignore
          else
     (case js_get_opt messageData ''prompt_id'' of
        Inl e \<Rightarrow> Fail e
      | Inr p \<Rightarrow> if js_strict_eq p pid then Collect else Ignore)))))"

text \<open>
  The call \<^verbatim>\<open>this.getImage(image.filename, image.subfolder, image.type)\<close> for the image
  \<open>img\<close> of node \<open>nodeId\<close>: the request goes out and the listener waits for its response,
  remembering the nodes and images still to visit and \<open>imagesOutput\<close> as filled so far.
\<close>

definition request_image ::
  "env \<Rightarrow> nat \<Rightarrow> json option \<Rightarrow> string list \<Rightarrow> string \<Rightarrow> json list \<Rightarrow> container list \<Rightarrow> json
     \<Rightarrow> client \<Rightarrow> client" where
  "request_image env n outputs nodeIds nodeId imgs imagesOutput img c =
     (case js_get img ''filename'' of
        Inl e \<Rightarrow> reject n e c
      | Inr filename \<Rightarrow>
     (case js_get img ''subfolder'' of
        Inl e \<Rightarrow> reject n e c
      | Inr subfolder \<Rightarrow>
     (case js_get img ''type'' of
        Inl e \<Rightarrow> reject n e c
      | Inr ty \<Rightarrow>
     (case cfetch_request env c ''view'' (view_params filename subfolder ty) of
        (c', r) \<Rightarrow>
          c'\<lparr>tasks := tasks c'
                 @ [AwaitImage n outputs nodeIds nodeId imgs imagesOutput img r]\<rparr>))))"

text \<open>
  The loop over \<^verbatim>\<open>Object.keys(history.outputs)\<close>, from the node ids still to visit up to
  the next request, or to its end, where the observer is removed and the promise resolved.
\<close>

fun visit_nodes :: "env \<Rightarrow> nat \<Rightarrow> json option \<Rightarrow> client \<Rightarrow> string list \<Rightarrow> client" where
  "visit_nodes env n outputs c [] = resolve n (remove_observer (OnMessage n) c)"
| "visit_nodes env n outputs c (nodeId # nodeIds) =
     (case js_get_opt outputs nodeId of
        Inl e \<Rightarrow> reject n e c
      | Inr nodeOutput \<Rightarrow>
     (case js_get_opt nodeOutput ''images'' of
        Inl e \<Rightarrow> reject n e c
      | Inr None \<Rightarrow> visit_nodes env n outputs c nodeIds
      | Inr (Some images) \<Rightarrow>
          if \<not> truthy images then visit_nodes env n outputs c nodeIds
          else
            (case js_iterate images of
               Inl e \<Rightarrow> reject n e c
             | Inr [] \<Rightarrow> visit_nodes env n outputs (set_output n nodeId [] c) nodeIds
             | Inr (img # imgs) \<Rightarrow>
                 request_image env n outputs nodeIds nodeId imgs [] img c)))"

text \<open>The loop over \<^verbatim>\<open>nodeOutput.images\<close> after an image is in: the next image, or the next node.\<close>

definition next_image ::
  "env \<Rightarrow> nat \<Rightarrow> json option \<Rightarrow> string list \<Rightarrow> string \<Rightarrow> json list \<Rightarrow> container list
     \<Rightarrow> client \<Rightarrow> client" where
  "next_image env n outputs nodeIds nodeId imgs imagesOutput c =
     (case imgs of
        [] \<Rightarrow> visit_nodes env n outputs (set_output n nodeId imagesOutput c) nodeIds
      | img # rest \<Rightarrow> request_image env n outputs nodeIds nodeId rest imagesOutput img c)"

text \<open>
  The listener goes on after a response. The history was asked for with the default
  options (JSON), an image with \<^verbatim>\<open>json: false, blob: true\<close>. Whatever is thrown goes to
  \<^verbatim>\<open>reject\<close>, and the observer stays registered.
\<close>

fun resume_task :: "env \<Rightarrow> task \<Rightarrow> client \<Rightarrow> client" where
  "resume_task env (AwaitHistory n r) c =
     (case cfetch_response env True False r of
        Inl e \<Rightarrow> reject n e c
      | Inr historyRes \<Rightarrow>
     (case jsval_get historyRes (js_to_string_opt (promptId (pending c ! n))) of
        Inl e \<Rightarrow> reject n e c
      | Inr history \<Rightarrow>
     (case js_get_opt history ''outputs'' of
        Inl e \<Rightarrow> reject n e c
      | Inr outputs \<Rightarrow>
     (case js_keys outputs of
        Inl e \<Rightarrow> reject n e c
      | Inr nodeIds \<Rightarrow> visit_nodes env n outputs c nodeIds))))"
| "resume_task env (AwaitImage n outputs nodeIds nodeId imgs imagesOutput img r) c =
     (case cfetch_response env False True r of
        Inl e \<Rightarrow> reject n e c
      | Inr b \<Rightarrow>
          next_image env n outputs nodeIds nodeId imgs
            (imagesOutput @ [\<lparr>c_blob = b, c_image = img\<rparr>]) c)"

text \<open>The \<open>k\<close>-th waiting listener gets its response.\<close>

definition advance :: "env \<Rightarrow> nat \<Rightarrow> client \<Rightarrow> client" where
  "advance env k c =
     (if k < length (tasks c)
      then resume_task env (tasks c ! k)
             (c\<lparr>tasks := take k (tasks c) @ drop (Suc k) (tasks c)\<rparr>)
      else c)"

text \<open>
  The observer of operation \<open>n\<close> is called with a frame. For the completion frame of its
  job it sends the history request and waits. An observer is only ever registered for an
  operation that exists.
\<close>

definition onMessage :: "env \<Rightarrow> nat \<Rightarrow> client \<Rightarrow> frame \<Rightarrow> client" where
  "onMessage env n c fr =
     (if n < length (pending c) then
        (case fr of
           Binary b \<Rightarrow> c
         | Text t \<Rightarrow>
             (case dispatch env (promptId (pending c ! n)) t of
                Ignore \<Rightarrow> c
              | Fail e \<Rightarrow> reject n e c
              | Collect \<Rightarrow>
                  (case cfetch_request env c (history_endpoint (promptId (pending c ! n)))
                          default_params of
                     (c', r) \<Rightarrow> c'\<lparr>tasks := tasks c' @ [AwaitHistory n r]\<rparr>)))
      else c)"

text \<open>
  What a call of \<^verbatim>\<open>getImages\<close> hands back: it threw, it returned a mapping, or it
  returned the promise of the operation registered under the given number.
\<close>

datatype images_result = Threw exn | Returned images_response | Awaiting nat

definition not_connected :: exn where
  "not_connected =
     Error ''WebSocket client is not connected. Please call connect() before interacting.''"

text \<open>
  \<^verbatim>\<open>getImages\<close> waits once, for the submission. What it does after that wait neither reads
  nor writes the client unless the submission yielded a result, so the call is one step.
\<close>

definition getImages :: "env \<Rightarrow> client \<Rightarrow> json \<Rightarrow> client \<times> images_result" where
  "getImages env c prompt =
     (if ws c = None then (c, Threw not_connected)
      else
        (case queuePrompt env c prompt of
           (c1, Inl e) \<Rightarrow> (c1, Threw e)
         | (c1, Inr queue) \<Rightarrow>
             if \<not> jsval_truthy queue then (c1, Returned [])
             else
               (case jsval_get queue ''prompt_id'' of
                  Inl e \<Rightarrow> (c1, Threw e)
                | Inr pid \<Rightarrow>
                    (let n = length (pending c1);
                         c2 = c1\<lparr>pending := pending c1
                                @ [\<lparr>promptId = pid, outputImages = [], promise = Pending\<rparr>]\<rparr>
                     in (add_observer (OnMessage n) c2, Awaiting n)))))"

text \<open>
  A frame arriving on socket \<open>h\<close> goes to each listener registered there, in order of
  registration.
\<close>

fun notify :: "env \<Rightarrow> frame \<Rightarrow> observer list \<Rightarrow> client \<Rightarrow> client" where
  "notify env fr [] c = c"
| "notify env fr (LogMessage # ls) c = notify env fr ls c"
| "notify env fr (OnMessage n # ls) c = notify env fr ls (onMessage env n c fr)"

definition deliver :: "env \<Rightarrow> nat \<Rightarrow> frame \<Rightarrow> client \<Rightarrow> client" where
  "deliver env h fr c =
     (if h < length (sockets c) then notify env fr (on_message (sockets c ! h)) c else c)"

text \<open>The constructor.\<close>

definition new_client :: "string \<Rightarrow> string \<Rightarrow> client_options option \<Rightarrow> client" where
  "new_client address cid opts =
     \<lparr>serverAddress = address, clientId = cid, options = opts, ws = None,
      sockets = [], pending = [], requests = [], tasks = [], suspended = 0\<rparr>"

text \<open>
  What a caller and the network can do to a client, one step at a time: a call of
  \<^verbatim>\<open>connect\<close>, a suspended \<^verbatim>\<open>connect\<close> going on, a call of \<^verbatim>\<open>disconnect\<close> or
  \<^verbatim>\<open>getImages\<close>, a frame arriving on a socket, a waiting listener getting its response,
  and \<^verbatim>\<open>open\<close>, \<^verbatim>\<open>close\<close> or \<^verbatim>\<open>error\<close> on a socket.
\<close>

datatype action =
    Connect
  | Resume
  | Disconnect
  | GetImages json
  | Deliver nat frame
  | Advance nat
  | TerminalEvent nat

fun step :: "env \<Rightarrow> client \<Rightarrow> action \<Rightarrow> client" where
  "step env c Connect = connect env c"
| "step env c Resume = connect_resume env c"
| "step env c Disconnect = disconnect c"
| "step env c (GetImages prompt) = fst (getImages env c prompt)"
| "step env c (Deliver h fr) = deliver env h fr c"
| "step env c (Advance k) = advance env k c"
| "step env c (TerminalEvent h) = on_terminal_event h c"

definition run :: "env \<Rightarrow> client \<Rightarrow> action list \<Rightarrow> client" where
  "run env c acts = foldl (step env) c acts"

text \<open>
  A caller who awaits every \<^verbatim>\<open>connect\<close>: each call is followed at once by its
  continuation (which does nothing when the call was not suspended).
\<close>

definition awaiting :: "action list \<Rightarrow> action list" where
  "awaiting acts = concat (map (\<lambda>a. if a = Connect then [Connect, Resume] else [a]) acts)"

section \<open>What the claims speak of\<close>

text \<open>
  \<^verbatim>\<open>response[nodeId]\<close> for a key of the mapping, and the artifacts of a result mapping in
  the order \<^verbatim>\<open>saveImages\<close> visits them.
\<close>

definition node_images :: "images_response \<Rightarrow> string \<Rightarrow> container list" where
  "node_images r nodeId = (case map_of r nodeId of None \<Rightarrow> [] | Some imgs \<Rightarrow> imgs)"

definition artifacts :: "images_response \<Rightarrow> container list" where
  "artifacts r = concat (map (node_images r) (map fst r))"

text \<open>An artifact that can be saved: its bytes were fetched and it names its file.\<close>

definition savable :: "container \<Rightarrow> bool" where
  "savable img =
     ((\<exists>b. c_blob img = Blob b) \<and> (\<exists>name. js_get (c_image img) ''filename'' = Inr (Some (JStr name))))"

definition artifact_path :: "env \<Rightarrow> string \<Rightarrow> container \<Rightarrow> string" where
  "artifact_path env outputDir img =
     (case js_get (c_image img) ''filename'' of
        Inr (Some (JStr name)) \<Rightarrow> path_join env outputDir name
      | _ \<Rightarrow> [])"

definition artifact_bytes :: "container \<Rightarrow> bytes" where
  "artifact_bytes img = (case c_blob img of Blob b \<Rightarrow> b | _ \<Rightarrow> [])"

text \<open>Writing one artifact to its file in the output directory.\<close>

definition write_artifact :: "env \<Rightarrow> string \<Rightarrow> filesystem \<Rightarrow> container \<Rightarrow> filesystem" where
  "write_artifact env outputDir fs img =
     fs(artifact_path env outputDir img \<mapsto> artifact_bytes img)"

text \<open>
  \<^verbatim>\<open>message.data[k]\<close> of a text frame, read as \<^verbatim>\<open>onMessage\<close> reads it; \<open>None\<close> also where
  the frame does not parse or the read throws. A frame is of kind \<^verbatim>\<open>executing\<close> when
  \<^verbatim>\<open>message.type === "executing"\<close>.
\<close>

definition frame_field :: "env \<Rightarrow> string \<Rightarrow> string \<Rightarrow> json option" where
  "frame_field env txt k =
     (case json_parse env txt of
        None \<Rightarrow> None
      | Some message \<Rightarrow>
          (case js_get message ''data'' of
             Inl e \<Rightarrow> None
           | Inr messageData \<Rightarrow>
               (case js_get_opt messageData k of
                  Inl e \<Rightarrow> None
                | Inr v \<Rightarrow> v)))"

definition is_executing :: "env \<Rightarrow> string \<Rightarrow> bool" where
  "is_executing env txt =
     (case json_parse env txt of
        None \<Rightarrow> False
      | Some message \<Rightarrow>
          (case js_get message ''type'' of
             Inl e \<Rightarrow> False
           | Inr ty \<Rightarrow> js_strict_eq ty (Some (JStr ''executing''))))"

text \<open>
  A client on which no operation is pending: no operation was registered, no observer
  waits for a response, and the only listener on each socket is the one \<^verbatim>\<open>connect\<close>
  installs.
\<close>

definition idle :: "client \<Rightarrow> bool" where
  "idle c =
     (pending c = [] \<and> tasks c = []
      \<and> list_all (\<lambda>s. on_message s = [LogMessage]) (sockets c))"

text \<open>
  The lifecycle invariant: the handle \<open>ws\<close>, when set, names a socket that \<^verbatim>\<open>close\<close> was not
  called on, and \<^verbatim>\<open>close\<close> was called on every other socket.
\<close>

definition lifecycle_inv :: "client \<Rightarrow> bool" where
  "lifecycle_inv c =
     (open_sockets c = (case ws c of None \<Rightarrow> [] | Some h \<Rightarrow> [h]))"

text \<open>
  A client at rest between awaited calls: nothing pending, the lifecycle invariant holds
  and no call of \<^verbatim>\<open>connect\<close> is suspended.
\<close>

definition steady :: "client \<Rightarrow> bool" where
  "steady c = (idle c \<and> lifecycle_inv c \<and> suspended c = 0)"

section \<open>A sample server\<close>

definition sample_outputs :: json where
  "sample_outputs =
     JObj [(''1'', JObj [(''images'', JArr [JObj [(''filename'', JStr ''out.png''),
                                                  (''subfolder'', JStr []),
                                                  (''type'', JStr ''output'')]])]),
           (''2'', JObj [(''text'', JArr [JStr ''hi''])])]"

definition executing_frame :: "json \<Rightarrow> string \<Rightarrow> json" where
  "executing_frame node pid =
     JObj [(''type'', JStr ''executing''),
           (''data'', JObj [(''node'', node), (''prompt_id'', JStr pid)])]"

definition sample_texts :: "(string \<times> json) list" where
  "sample_texts =
     [(''{prompt_id:abc}'', JObj [(''prompt_id'', JStr ''abc'')]),
      (''{error:boom}'', JObj [(''error'', JStr ''boom'')]),
      (''{type:executing,data:{node:null,prompt_id:abc}}'', executing_frame JNull ''abc''),
      (''{type:executing,data:{node:1,prompt_id:abc}}'', executing_frame (JStr ''1'') ''abc''),
      (''{type:executing,data:{node:,prompt_id:abc}}'', executing_frame (JStr []) ''abc''),
      (''{type:executing,data:{node:null,prompt_id:xyz}}'', executing_frame JNull ''xyz''),
      (''{abc:{outputs:{1:{images:[out.png]},2:{text:[hi]}}}}'',
         JObj [(''abc'', JObj [(''outputs'', sample_outputs)])])]"

text \<open>
  The frames of the sample run: job \<open>abc\<close> is done; node \<open>1\<close> of job \<open>abc\<close> is running; a
  frame of job \<open>abc\<close> whose node is the empty string; job \<open>xyz\<close> is done.
\<close>

definition done_text :: string where
  "done_text = ''{type:executing,data:{node:null,prompt_id:abc}}''"


definition empty_node_text :: string where
  "empty_node_text = ''{type:executing,data:{node:,prompt_id:abc}}''"

definition other_done_text :: string where
  "other_done_text = ''{type:executing,data:{node:null,prompt_id:xyz}}''"

definition sample_fetch :: "request list \<Rightarrow> request \<Rightarrow> exn + response" where
  "sample_fetch log req =
     (let p = pathname (req_url req)
      in if p = ''/prompt'' then Inr \<lparr>status = 200, body = ''{prompt_id:abc}''\<rparr>
         else if p = ''/history/abc''
           then Inr \<lparr>status = 200, body = ''{abc:{outputs:{1:{images:[out.png]},2:{text:[hi]}}}}''\<rparr>
         else if p = ''/view'' then Inr \<lparr>status = 200, body = ''PNG''\<rparr>
         else Inr \<lparr>status = 404, body = ''Not Found''\<rparr>)"

definition sample_env :: env where
  "sample_env =
     \<lparr>fetch = sample_fetch, json_parse = map_of sample_texts,
      json_stringify = (\<lambda>j. ''{}''), base64 = (\<lambda>s. s),
      path_join = (\<lambda>dir name. dir @ ''/'' @ name), write_fails = (\<lambda>p. False)\<rparr>"

text \<open>
  The result of the sample job, and a result in which two nodes saved an image under the
  same file name in different subfolders.
\<close>

definition sample_result :: images_response where
  "sample_result =
     [(''1'', [\<lparr>c_blob = Blob ''PNG'',
                c_image = JObj [(''filename'', JStr ''out.png''), (''subfolder'', JStr []),
                                (''type'', JStr ''output'')]\<rparr>])]"

definition clashing_result :: images_response where
  "clashing_result =
     [(''1'', [\<lparr>c_blob = Blob ''AAA'',
                c_image = JObj [(''filename'', JStr ''out.png''), (''subfolder'', JStr ''a''),
                                (''type'', JStr ''output'')]\<rparr>]),
      (''2'', [\<lparr>c_blob = Blob ''BBB'',
                c_image = JObj [(''filename'', JStr ''out.png''), (''subfolder'', JStr ''b''),
                                (''type'', JStr ''output'')]\<rparr>])]"

text \<open>A server that answers every request with the same response.\<close>

definition const_env :: "response \<Rightarrow> env" where
  "const_env res = sample_env\<lparr>fetch := (\<lambda>log req. Inr res)\<rparr>"

text \<open>The client after its first \<^verbatim>\<open>connect\<close> to the sample server.\<close>

definition connected_client :: client where
  "connected_client =
     \<lparr>serverAddress = ''127.0.0.1:8188'', clientId = ''me'', options = None, ws = Some 0,
      sockets = [\<lparr>sock_url = ''ws://127.0.0.1:8188/ws?clientId=me'', sock_headers = [],
                  close_called = False, resolved = False, on_message = [LogMessage]\<rparr>],
      pending = [], requests = [], tasks = [], suspended = 0\<rparr>"

section \<open>The request interface\<close>

lemma cfetch_fst:
  "fst (cfetch env c endpoint ps)
     = c\<lparr>requests := requests c @ [build_request env c endpoint ps]\<rparr>"
  by (simp add: cfetch_def Let_def split: sum.splits option.splits bool.splits)

text \<open>\<^verbatim>\<open>cfetch\<close> is its two halves, run one after the other.\<close>

lemma cfetch_split:
  "cfetch env c endpoint ps
     = (fst (cfetch_request env c endpoint ps),
        cfetch_response env (json ps) (blob ps) (snd (cfetch_request env c endpoint ps)))"
  by (simp add: cfetch_def cfetch_request_def cfetch_response_def Let_def
      split: sum.splits option.splits bool.splits)

text \<open>
  In this build \<^verbatim>\<open>queuePrompt\<close> passes options without \<^verbatim>\<open>json\<close>, so \<^verbatim>\<open>cfetch\<close> reads no
  body for it: whatever the server answers, the submission yields \<^verbatim>\<open>null\<close> or throws.
\<close>

lemma queuePrompt_no_result:
  "snd (queuePrompt env c prompt) = Inr Null \<or> (\<exists>e. snd (queuePrompt env c prompt) = Inl e)"
  by (simp add: queuePrompt_def cfetch_def Let_def split: sum.splits)

text \<open>
  Claim C4, as amended. When the server answers a request with a status other than 200,
  \<^verbatim>\<open>cfetch\<close> returns \<^verbatim>\<open>null\<close> and reads no body, so it cannot throw a parse error. When
  the server answers 200 with a JSON object that has an \<^verbatim>\<open>error\<close> field, \<^verbatim>\<open>cfetch\<close>
  returns \<^verbatim>\<open>null\<close> for every operation except the binary fetch (options with \<^verbatim>\<open>blob\<close> and
  without \<^verbatim>\<open>json\<close>, which only \<^verbatim>\<open>getImage\<close> passes).
\<close>

theorem cfetch_no_result:
  assumes "fetch env (requests c) (build_request env c endpoint ps) = Inr res"
  shows "(status res \<noteq> 200 \<longrightarrow> snd (cfetch env c endpoint ps) = Inr Null)
       \<and> (status res = 200 \<and> (json ps \<or> \<not> blob ps)
            \<and> (\<exists>kvs. json_parse env (body res) = Some (JObj kvs) \<and> ''error'' \<in> fst ` set kvs)
          \<longrightarrow> snd (cfetch env c endpoint ps) = Inr Null)"
proof (intro conjI impI)
  assume "status res \<noteq> 200"
  with assms show "snd (cfetch env c endpoint ps) = Inr Null"
    by (simp add: cfetch_def Let_def)
next
  assume h: "status res = 200 \<and> (json ps \<or> \<not> blob ps)
            \<and> (\<exists>kvs. json_parse env (body res) = Some (JObj kvs) \<and> ''error'' \<in> fst ` set kvs)"
  then obtain kvs
    where k: "json_parse env (body res) = Some (JObj kvs)" "''error'' \<in> fst ` set kvs"
    by blast
  from h have "status res = 200" "json ps \<or> \<not> blob ps" by simp_all
  with assms k show "snd (cfetch env c endpoint ps) = Inr Null"
    by (cases "json ps") (simp_all add: cfetch_def Let_def)
qed

text \<open>A 500 and a 200 carrying \<^verbatim>\<open>{error: boom}\<close>, both asked for with the default options.\<close>

theorem cfetch_no_result_witness:
  "snd (cfetch (const_env \<lparr>status = 500, body = ''Internal Server Error''\<rparr>) connected_client
         ''prompt'' default_params) = Inr Null
   \<and> json_parse (const_env \<lparr>status = 200, body = ''{error:boom}''\<rparr>) ''{error:boom}''
       = Some (JObj [(''error'', JStr ''boom'')])
   \<and> snd (cfetch (const_env \<lparr>status = 200, body = ''{error:boom}''\<rparr>) connected_client
         ''prompt'' default_params) = Inr Null"
proof -
  have a: "fetch (const_env \<lparr>status = 500, body = ''Internal Server Error''\<rparr>)
            (requests connected_client)
            (build_request (const_env \<lparr>status = 500, body = ''Internal Server Error''\<rparr>)
               connected_client ''prompt'' default_params)
          = Inr \<lparr>status = 500, body = ''Internal Server Error''\<rparr>"
    by (simp add: const_env_def)
  have b: "fetch (const_env \<lparr>status = 200, body = ''{error:boom}''\<rparr>) (requests connected_client)
            (build_request (const_env \<lparr>status = 200, body = ''{error:boom}''\<rparr>)
               connected_client ''prompt'' default_params)
          = Inr \<lparr>status = 200, body = ''{error:boom}''\<rparr>"
    by (simp add: const_env_def)
  have p: "json_parse (const_env \<lparr>status = 200, body = ''{error:boom}''\<rparr>) ''{error:boom}''
       = Some (JObj [(''error'', JStr ''boom'')])"
    by (simp add: const_env_def sample_env_def sample_texts_def)
  show ?thesis
    using cfetch_no_result [OF a] cfetch_no_result [OF b] p
    by (simp add: default_params_def)
qed

text \<open>
  Claim C4 as stated fails for the binary fetch: a 200 response whose body is the JSON
  object \<^verbatim>\<open>{error: boom}\<close> comes back from \<^verbatim>\<open>getImage\<close> as a \<^verbatim>\<open>Blob\<close> of that text, not as
  \<^verbatim>\<open>null\<close>.
\<close>

theorem getImage_error_body_counterexample:
  "status \<lparr>status = 200, body = ''{error:boom}''\<rparr> = 200
   \<and> json_parse (const_env \<lparr>status = 200, body = ''{error:boom}''\<rparr>) ''{error:boom}''
       = Some (JObj [(''error'', JStr ''boom'')])
   \<and> snd (getImage (const_env \<lparr>status = 200, body = ''{error:boom}''\<rparr>) connected_client
         (Some (JStr ''out.png'')) (Some (JStr [])) (Some (JStr ''output'')))
       = Inr (Blob ''{error:boom}'')
   \<and> snd (getImage (const_env \<lparr>status = 200, body = ''{error:boom}''\<rparr>) connected_client
         (Some (JStr ''out.png'')) (Some (JStr [])) (Some (JStr ''output''))) \<noteq> Inr Null"
  by (simp add: getImage_def cfetch_def view_params_def const_env_def sample_env_def
      sample_texts_def Let_def)

text \<open>
  Claim C10. When the server answers the request of \<^verbatim>\<open>getImage\<close> with a status other than
  200, \<^verbatim>\<open>getImage\<close> returns \<^verbatim>\<open>null\<close>: it neither throws nor produces a \<^verbatim>\<open>Blob\<close>.
\<close>

theorem getImage_not_ok_null:
  assumes "fetch env (requests c) (build_request env c ''view'' (view_params filename subfolder ty))
             = Inr res"
    and "status res \<noteq> 200"
  shows "snd (getImage env c filename subfolder ty) = Inr Null"
  using assms by (simp add: getImage_def cfetch_def Let_def)

theorem getImage_not_ok_null_witness:
  "status \<lparr>status = 404, body = ''Not Found''\<rparr> \<noteq> 200
   \<and> snd (getImage (const_env \<lparr>status = 404, body = ''Not Found''\<rparr>) connected_client
         (Some (JStr ''out.png'')) (Some (JStr [])) (Some (JStr ''output''))) = Inr Null"
proof -
  have a: "fetch (const_env \<lparr>status = 404, body = ''Not Found''\<rparr>) (requests connected_client)
            (build_request (const_env \<lparr>status = 404, body = ''Not Found''\<rparr>) connected_client
               ''view'' (view_params (Some (JStr ''out.png'')) (Some (JStr [])) (Some (JStr ''output''))))
          = Inr \<lparr>status = 404, body = ''Not Found''\<rparr>"
    by (simp add: const_env_def)
  have b: "status \<lparr>status = 404, body = ''Not Found''\<rparr> \<noteq> 200" by simp
  show ?thesis using getImage_not_ok_null [OF a b] b by simp
qed

text \<open>
  Claim C9 fails on the code. The template of \<^verbatim>\<open>getObjectInfo\<close> ends in a stray fragment:
  the request goes to \<^verbatim>\<open>object_info : ''\<close>, or to \<^verbatim>\<open>object_info/KSampler : ''\<close> for the node
  class \<^verbatim>\<open>KSampler\<close>.
\<close>

theorem getObjectInfo_stray_suffix:
  "pathname (req_url (last (requests (fst (getObjectInfo env c None)))))
     = ''/object_info : '' @ [CHR 0x27, CHR 0x27]
   \<and> pathname (req_url (last (requests (fst (getObjectInfo env c (Some ''KSampler''))))))
     = ''/object_info/KSampler : '' @ [CHR 0x27, CHR 0x27]"
  by (simp add: getObjectInfo_def cfetch_fst build_request_def curl_def default_params_def
      object_info_endpoint_def Let_def)

section \<open>Preconditions of the composite operation\<close>

text \<open>
  Claim C5. Without a connection \<^verbatim>\<open>getImages\<close> throws the not-connected error at once:
  the client is left as it was, so nothing was submitted and no socket was constructed.
\<close>

theorem getImages_not_connected:
  assumes "ws c = None"
  shows "getImages env c prompt = (c, Threw not_connected)"
  using assms by (simp add: getImages_def)

theorem getImages_not_connected_witness:
  "ws (new_client ''127.0.0.1:8188'' ''me'' None) = None
   \<and> getImages sample_env (new_client ''127.0.0.1:8188'' ''me'' None) (JObj [])
     = (new_client ''127.0.0.1:8188'' ''me'' None, Threw not_connected)
   \<and> requests (fst (getImages sample_env (new_client ''127.0.0.1:8188'' ''me'' None) (JObj []))) = []
   \<and> sockets (fst (getImages sample_env (new_client ''127.0.0.1:8188'' ''me'' None) (JObj []))) = []"
proof -
  have a: "ws (new_client ''127.0.0.1:8188'' ''me'' None) = None"
    by (simp add: new_client_def)
  show ?thesis
    using getImages_not_connected [OF a, of sample_env "JObj []"] a
    by (simp add: new_client_def)
qed

text \<open>
  Since the submission of this build never yields a result, no call of \<^verbatim>\<open>getImages\<close> gets
  as far as registering an observer: it throws or returns the empty mapping.
\<close>

lemma getImages_never_registers: "snd (getImages env c prompt) \<noteq> Awaiting n"
proof -
  obtain c1 r where q: "queuePrompt env c prompt = (c1, r)"
    by (cases "queuePrompt env c prompt")
  have "r = Inr Null \<or> (\<exists>e. r = Inl e)"
    using queuePrompt_no_result [of env c prompt] q by simp
  then show ?thesis
    using q by (auto simp add: getImages_def)
qed

text \<open>
  Claim C6, as amended. When the submission yields \<^verbatim>\<open>null\<close>, \<^verbatim>\<open>getImages\<close> returns the
  empty mapping; no observer is registered (the sockets are as before) and no operation is
  left pending.
\<close>

theorem getImages_submission_no_result:
  assumes "ws c \<noteq> None"
    and "snd (queuePrompt env c prompt) = Inr Null"
  shows "snd (getImages env c prompt) = Returned []
       \<and> sockets (fst (getImages env c prompt)) = sockets c
       \<and> pending (fst (getImages env c prompt)) = pending c
       \<and> ws (fst (getImages env c prompt)) = ws c"
  using assms
  by (auto simp add: getImages_def queuePrompt_def cfetch_def Let_def
      split: sum.splits prod.splits if_splits)

theorem getImages_submission_no_result_witness:
  "ws connected_client \<noteq> None
   \<and> snd (queuePrompt (const_env \<lparr>status = 500, body = ''Internal Server Error''\<rparr>)
           connected_client (JObj [])) = Inr Null
   \<and> snd (getImages (const_env \<lparr>status = 500, body = ''Internal Server Error''\<rparr>)
           connected_client (JObj [])) = Returned []
   \<and> sockets (fst (getImages (const_env \<lparr>status = 500, body = ''Internal Server Error''\<rparr>)
           connected_client (JObj []))) = sockets connected_client"
proof -
  have a: "ws connected_client \<noteq> None" by (simp add: connected_client_def)
  have b: "snd (queuePrompt (const_env \<lparr>status = 500, body = ''Internal Server Error''\<rparr>)
           connected_client (JObj [])) = Inr Null"
    by (simp add: queuePrompt_def cfetch_def const_env_def Let_def)
  show ?thesis using getImages_submission_no_result [OF a b] a b by simp
qed

text \<open>
  Claim C6 as stated fails: with a server that answers 500 the submission yields
  \<^verbatim>\<open>null\<close>, and \<^verbatim>\<open>getImages\<close> does not fail, it returns \<^verbatim>\<open>{}\<close>.
\<close>

theorem getImages_submission_counterexample:
  "snd (queuePrompt (const_env \<lparr>status = 500, body = ''Internal Server Error''\<rparr>)
           connected_client (JObj [])) = Inr Null
   \<and> snd (getImages (const_env \<lparr>status = 500, body = ''Internal Server Error''\<rparr>)
           connected_client (JObj [])) = Returned []
   \<and> snd (getImages (const_env \<lparr>status = 500, body = ''Internal Server Error''\<rparr>)
           connected_client (JObj [])) \<noteq> Threw TypeError"
  by (simp add: getImages_def queuePrompt_def cfetch_def const_env_def Let_def connected_client_def)

section \<open>Saving collected images\<close>

lemma save_image_ok:
  assumes "savable img" and "\<not> write_fails env (artifact_path env outputDir img)"
  shows "save_image env outputDir img fs = (write_artifact env outputDir fs img, None)"
proof -
  from assms(1) obtain b name where
    b: "c_blob img = Blob b" and f: "js_get (c_image img) ''filename'' = Inr (Some (JStr name))"
    by (auto simp add: savable_def)
  then show ?thesis
    using assms(2)
    by (simp add: save_image_def write_artifact_def artifact_path_def artifact_bytes_def Let_def)
qed

lemma save_node_ok:
  assumes "list_all savable imgs"
    and "\<forall>img \<in> set imgs. \<not> write_fails env (artifact_path env outputDir img)"
  shows "save_node env outputDir imgs fs = (foldl (write_artifact env outputDir) fs imgs, None)"
  using assms
  by (induction imgs arbitrary: fs) (simp_all add: save_image_ok)

lemma save_nodes_ok:
  assumes "set nodeIds \<subseteq> fst ` set r"
    and "list_all savable (concat (map (node_images r) nodeIds))"
    and "\<forall>img \<in> set (concat (map (node_images r) nodeIds)).
           \<not> write_fails env (artifact_path env outputDir img)"
  shows "save_nodes env outputDir r nodeIds fs
           = (foldl (write_artifact env outputDir) fs (concat (map (node_images r) nodeIds)), None)"
  using assms
proof (induction nodeIds arbitrary: fs)
  case Nil
  then show ?case by simp
next
  case (Cons nodeId nodeIds)
  from Cons.prems(1) have "nodeId \<in> fst ` set r" by simp
  then obtain imgs where m: "map_of r nodeId = Some imgs"
    by (metis domD dom_map_of_conv_image_fst)
  then have ni: "node_images r nodeId = imgs" by (simp add: node_images_def)
  have a: "save_node env outputDir imgs fs = (foldl (write_artifact env outputDir) fs imgs, None)"
    using Cons.prems(2,3) ni by (intro save_node_ok) simp_all
  have b: "save_nodes env outputDir r nodeIds (foldl (write_artifact env outputDir) fs imgs)
           = (foldl (write_artifact env outputDir) (foldl (write_artifact env outputDir) fs imgs)
                (concat (map (node_images r) nodeIds)), None)"
    using Cons.prems by (intro Cons.IH) simp_all
  show ?case using m ni a b by simp
qed

lemma foldl_write_lookup:
  "foldl (write_artifact env outputDir) fs imgs p
     = (if p \<in> artifact_path env outputDir ` set imgs
        then Some (artifact_bytes (last (filter (\<lambda>img. artifact_path env outputDir img = p) imgs)))
        else fs p)"
  by (induction imgs rule: rev_induct) (auto simp add: write_artifact_def)

lemma last_filter_distinct:
  assumes "distinct (map f xs)" and "x \<in> set xs"
  shows "last (filter (\<lambda>y. f y = f x) xs) = x"
proof -
  have "filter (\<lambda>y. f y = f x) xs = [x]"
    using assms
  proof (induction xs)
    case Nil
    then show ?case by simp
  next
    case (Cons a xs)
    show ?case
    proof (cases "a = x")
      case True
      have "f x \<notin> f ` set xs" using Cons.prems(1) True by simp
      then have "\<forall>y \<in> set xs. f y \<noteq> f x" by (metis imageI)
      then have "filter (\<lambda>y. f y = f x) xs = []" by (simp add: filter_empty_conv)
      with True show ?thesis by simp
    next
      case False
      with Cons.prems have "x \<in> set xs" "f a \<noteq> f x" by auto
      with Cons show ?thesis by simp
    qed
  qed
  then show ?thesis by simp
qed

text \<open>An artifact whose fetch yielded \<^verbatim>\<open>null\<close> stops \<^verbatim>\<open>saveImages\<close> with a \<^verbatim>\<open>TypeError\<close>.\<close>

lemma saveImages_null_blob:
  "saveImages env (Some ((nodeId, \<lparr>c_blob = Null, c_image = i\<rparr> # imgs) # r)) outputDir fs
     = (fs, Some TypeError)"
  by (simp add: saveImages_def save_image_def)

text \<open>
  Claim C8, as amended. For a result mapping in which every artifact carries fetched bytes
  and a file name, and an output directory that accepts the writes, \<^verbatim>\<open>saveImages\<close> succeeds
  and performs one write per artifact, in the mapping's order, of the artifact's bytes to
  the path joining the directory and the artifact's file name, replacing what was there.
  No file at another path changes; each written path ends up with the bytes of the last
  artifact written to it; when the joined paths are pairwise distinct there is one file per
  artifact, holding that artifact's bytes.
\<close>

theorem saveImages_writes:
  assumes "list_all savable (artifacts r)"
    and "\<forall>img \<in> set (artifacts r). \<not> write_fails env (artifact_path env outputDir img)"
  shows "saveImages env (Some r) outputDir fs
           = (foldl (write_artifact env outputDir) fs (artifacts r), None)
       \<and> (\<forall>p. p \<notin> artifact_path env outputDir ` set (artifacts r)
              \<longrightarrow> fst (saveImages env (Some r) outputDir fs) p = fs p)
       \<and> (\<forall>img \<in> set (artifacts r).
             fst (saveImages env (Some r) outputDir fs) (artifact_path env outputDir img)
               = Some (artifact_bytes (last (filter
                   (\<lambda>a. artifact_path env outputDir a = artifact_path env outputDir img)
                   (artifacts r)))))
       \<and> (distinct (map (artifact_path env outputDir) (artifacts r)) \<longrightarrow>
            (\<forall>img \<in> set (artifacts r).
               fst (saveImages env (Some r) outputDir fs) (artifact_path env outputDir img)
                 = Some (artifact_bytes img)))"
proof -
  have arts: "artifacts r = concat (map (node_images r) (map fst r))"
    by (simp add: artifacts_def)
  have eq: "saveImages env (Some r) outputDir fs
           = (foldl (write_artifact env outputDir) fs (artifacts r), None)"
    unfolding saveImages_def Let_def arts
    using assms by (simp add: arts save_nodes_ok)
  show ?thesis
    unfolding eq fst_conv
    by (auto simp add: foldl_write_lookup last_filter_distinct)
qed

theorem saveImages_writes_witness:
  "list_all savable (artifacts sample_result)
   \<and> distinct (map (artifact_path sample_env ''D'') (artifacts sample_result))
   \<and> saveImages sample_env (Some sample_result) ''D'' Map.empty
       = (Map.empty(''D/out.png'' \<mapsto> ''PNG''), None)
   \<and> fst (saveImages sample_env (Some sample_result) ''D'' Map.empty) ''D/out.png'' = Some ''PNG''"
proof -
  have a: "list_all savable (artifacts sample_result)"
    by (simp add: artifacts_def node_images_def sample_result_def savable_def)
  have b: "\<forall>img \<in> set (artifacts sample_result).
             \<not> write_fails sample_env (artifact_path sample_env ''D'' img)"
    by (simp add: sample_env_def)
  have d: "distinct (map (artifact_path sample_env ''D'') (artifacts sample_result))"
    by (simp add: artifacts_def node_images_def sample_result_def)
  have e: "foldl (write_artifact sample_env ''D'') Map.empty (artifacts sample_result)
             = Map.empty(''D/out.png'' \<mapsto> ''PNG'')"
    by (simp add: artifacts_def node_images_def sample_result_def write_artifact_def
        artifact_path_def artifact_bytes_def sample_env_def)
  have "saveImages sample_env (Some sample_result) ''D'' Map.empty
          = (foldl (write_artifact sample_env ''D'') Map.empty (artifacts sample_result), None)"
    using saveImages_writes [OF a b, of Map.empty] by blast
  then show ?thesis using a d e by simp
qed

text \<open>
  Claim C8 as stated fails: two artifacts of the same file name are written to the same
  path, which gives one file, and the first artifact's bytes are in no file.
\<close>

theorem saveImages_clash_counterexample:
  "length (artifacts clashing_result) = 2
   \<and> saveImages sample_env (Some clashing_result) ''D'' Map.empty
       = (Map.empty(''D/out.png'' \<mapsto> ''BBB''), None)
   \<and> artifact_path sample_env ''D'' (artifacts clashing_result ! 0) = ''D/out.png''
   \<and> artifact_bytes (artifacts clashing_result ! 0) = ''AAA''"
  by (simp add: artifacts_def node_images_def clashing_result_def saveImages_def save_image_def
      artifact_path_def artifact_bytes_def sample_env_def Let_def)

section \<open>The states a client can reach\<close>

text \<open>
  A call of \<^verbatim>\<open>getImages\<close> changes nothing of the client but the log of requests: it never
  registers an operation or an observer.
\<close>

lemma getImages_only_requests: "\<exists>rs. fst (getImages env c prompt) = c\<lparr>requests := rs\<rparr>"
proof (cases "ws c = None")
  case True
  have "c = c\<lparr>requests := requests c\<rparr>" by simp
  with True show ?thesis by (metis fst_conv getImages_def)
next
  case False
  obtain c1 r where q: "queuePrompt env c prompt = (c1, r)"
    by (cases "queuePrompt env c prompt")
  have "fst (queuePrompt env c prompt) = c\<lparr>requests := requests (fst (queuePrompt env c prompt))\<rparr>"
    by (simp add: queuePrompt_def cfetch_fst)
  then have c1: "c1 = c\<lparr>requests := requests c1\<rparr>" using q by simp
  have "r = Inr Null \<or> (\<exists>e. r = Inl e)"
    using queuePrompt_no_result [of env c prompt] q by simp
  then have "fst (getImages env c prompt) = c1"
    using False q by (auto simp add: getImages_def)
  then show ?thesis using c1 by metis
qed

lemma idle_new_client: "idle (new_client address cid opts)"
  by (simp add: idle_def new_client_def)

lemma list_all_update_same:
  assumes "list_all P xs" and "\<And>x. P x \<Longrightarrow> P (f x)"
  shows "list_all P (xs[h := f (xs ! h)])"
proof (cases "h < length xs")
  case True
  then show ?thesis
    using assms by (simp add: list_all_length nth_list_update)
next
  case False
  then show ?thesis using assms(1) by (simp add: list_update_beyond)
qed

lemma idle_disconnect: "idle c \<Longrightarrow> idle (disconnect c)"
  by (simp add: idle_def disconnect_def list_all_update_same split: option.splits)

lemma idle_open_socket: "idle c \<Longrightarrow> idle (open_socket env c)"
  by (simp add: idle_def open_socket_def Let_def)

lemma idle_suspended [simp]: "idle (c\<lparr>suspended := k\<rparr>) = idle c"
  by (simp add: idle_def)

lemma idle_requests [simp]: "idle (c\<lparr>requests := rs\<rparr>) = idle c"
  by (simp add: idle_def)




lemma deliver_idle: "idle c \<Longrightarrow> deliver env h fr c = c"
  by (auto simp add: deliver_def idle_def list_all_length)

lemma advance_idle: "idle c \<Longrightarrow> advance env k c = c"
  by (simp add: advance_def idle_def)

lemma idle_on_terminal_event: "idle c \<Longrightarrow> idle (on_terminal_event h c)"
  by (simp add: idle_def on_terminal_event_def list_all_update_same)



lemma connected_client_reachable:
  "connected_client = run sample_env (new_client ''127.0.0.1:8188'' ''me'' None) [Connect]"
  by (simp add: connected_client_def run_def connect_def open_socket_def new_client_def
      ws_url_def is_secure_def auth_headers_def Let_def)


section \<open>The tests of the observer\<close>

text \<open>
  What the tests of \<^verbatim>\<open>onMessage\<close> decide, whatever the operation: a frame with a truthy
  \<^verbatim>\<open>node\<close> is ignored, a frame with another \<^verbatim>\<open>prompt_id\<close> is ignored, and collecting
  starts only for a frame of kind \<^verbatim>\<open>executing\<close> with a falsy \<^verbatim>\<open>node\<close> and a strictly
  equal \<^verbatim>\<open>prompt_id\<close>. The test on \<^verbatim>\<open>node\<close> is one of truthiness: the empty string passes
  it.
\<close>

lemma js_get_total: "js_get m k = Inr v \<Longrightarrow> \<exists>w. js_get m k' = Inr w"
  by (cases m) simp_all

lemma frame_field_SomeD:
  assumes "frame_field env t k = Some v"
  obtains message messageData where "json_parse env t = Some message"
    and "js_get message ''data'' = Inr messageData"
    and "js_get_opt messageData k = Inr (Some v)"
  using assms
  by (auto simp add: frame_field_def split: option.splits sum.splits)

lemma dispatch_active_node:
  assumes "truthy_opt (frame_field env t ''node'')"
  shows "dispatch env pid t = Ignore"
proof -
  from assms obtain v where v: "frame_field env t ''node'' = Some v" "truthy v"
    by (cases "frame_field env t ''node''") auto
  from v(1) obtain message messageData where m: "json_parse env t = Some message"
    "js_get message ''data'' = Inr messageData" "js_get_opt messageData ''node'' = Inr (Some v)"
    by (rule frame_field_SomeD)
  obtain ty where "js_get message ''type'' = Inr ty"
    using js_get_total [OF m(2)] by blast
  then show ?thesis using m v(2) by (simp add: dispatch_def)
qed

lemma dispatch_other_job:
  assumes "frame_field env t ''prompt_id'' = Some q"
    and "\<not> js_strict_eq (Some q) pid"
  shows "dispatch env pid t = Ignore"
proof -
  from assms(1) obtain message messageData where m: "json_parse env t = Some message"
    "js_get message ''data'' = Inr messageData" "js_get_opt messageData ''prompt_id'' = Inr (Some q)"
    by (rule frame_field_SomeD)
  obtain ty where ty: "js_get message ''type'' = Inr ty"
    using js_get_total [OF m(2)] by blast
  obtain d where d: "messageData = Some d"
    using m(3) by (cases messageData) simp_all
  obtain nd where "js_get d ''node'' = Inr nd"
    using js_get_total [of d "''prompt_id''"] m(3) d by auto
  then show ?thesis using m ty d assms(2) by (simp add: dispatch_def)
qed

lemma dispatch_Collect:
  assumes "dispatch env pid t = Collect"
  shows "is_executing env t \<and> \<not> truthy_opt (frame_field env t ''node'')
       \<and> js_strict_eq (frame_field env t ''prompt_id'') pid"
  using assms
  by (auto simp add: dispatch_def is_executing_def frame_field_def
      split: option.splits sum.splits if_splits)

lemma dispatch_empty_node: "dispatch sample_env (Some (JStr ''abc'')) empty_node_text = Collect"
  by (simp add: dispatch_def sample_env_def sample_texts_def executing_frame_def
      empty_node_text_def)



section \<open>A job that is submitted\<close>

text \<open>The sample run: the definitions it unfolds.\<close>

lemmas sample_run_defs = getImages_def queuePrompt_def cfetch_def build_request_def curl_def
  is_secure_def auth_headers_def sample_env_def sample_fetch_def connected_client_def
  deliver_def Let_def

text \<open>
  Claim C1 fails on the code. The sample server accepts the job and answers 200 with the
  \<^verbatim>\<open>prompt_id\<close> \<open>abc\<close>; \<^verbatim>\<open>queuePrompt\<close> passes no \<^verbatim>\<open>json\<close> flag, so \<^verbatim>\<open>cfetch\<close> reads no
  body, and \<^verbatim>\<open>getImages\<close> returns the empty mapping at once. The completion frame of job
  \<open>abc\<close> then reaches no observer: the client stays as it was, with the submission as its
  only request, while the history the server holds for \<open>abc\<close> has the output nodes \<open>1\<close>
  and \<open>2\<close>.
\<close>

theorem getImages_drops_submission:
  "fetch sample_env (requests connected_client)
      (last (requests (fst (getImages sample_env connected_client (JObj [])))))
     = Inr \<lparr>status = 200, body = ''{prompt_id:abc}''\<rparr>
   \<and> json_parse sample_env ''{prompt_id:abc}'' = Some (JObj [(''prompt_id'', JStr ''abc'')])
   \<and> snd (getImages sample_env connected_client (JObj [])) = Returned []
   \<and> deliver sample_env 0 (Text done_text) (fst (getImages sample_env connected_client (JObj [])))
       = fst (getImages sample_env connected_client (JObj []))
   \<and> length (requests (fst (getImages sample_env connected_client (JObj [])))) = 1
   \<and> snd (getHistory sample_env connected_client (Some (JStr ''abc'')))
       = Inr (Json (JObj [(''abc'', JObj [(''outputs'', sample_outputs)])]))
   \<and> js_keys (Some sample_outputs) = Inr [''1'', ''2'']"
  by (simp add: sample_run_defs sample_texts_def getHistory_def history_endpoint_def
      default_params_def sample_outputs_def)

text \<open>
  Claim C3 fails on the code. After the same submission no operation is pending,
  \<^verbatim>\<open>getImages\<close> having returned \<^verbatim>\<open>{}\<close>, and the only listener on the socket is the one
  \<^verbatim>\<open>connect\<close> installs: the frame of another job finds no observer to leave registered.
\<close>

theorem getImages_registers_nothing:
  "snd (getImages sample_env connected_client (JObj [])) = Returned []
   \<and> pending (fst (getImages sample_env connected_client (JObj []))) = []
   \<and> map on_message (sockets (fst (getImages sample_env connected_client (JObj []))))
       = [[LogMessage]]
   \<and> frame_field sample_env other_done_text ''prompt_id'' = Some (JStr ''xyz'')
   \<and> deliver sample_env 0 (Text other_done_text)
        (fst (getImages sample_env connected_client (JObj [])))
       = fst (getImages sample_env connected_client (JObj []))"
  by (simp add: sample_run_defs frame_field_def sample_texts_def executing_frame_def
      other_done_text_def)


section \<open>Connection lifecycle\<close>

lemma open_sockets_cong:
  assumes "map close_called (sockets c') = map close_called (sockets c)"
  shows "open_sockets c' = open_sockets c"
proof -
  have len: "length (sockets c') = length (sockets c)"
    using assms by (metis length_map)
  have "close_called (sockets c' ! h) = close_called (sockets c ! h)"
    if "h < length (sockets c)" for h
    using assms that len by (metis nth_map)
  then show ?thesis
    unfolding open_sockets_def len by (intro filter_cong) simp_all
qed

lemma open_sockets_suspended [simp]: "open_sockets (c\<lparr>suspended := k\<rparr>) = open_sockets c"
  by (simp add: open_sockets_def)

lemma open_sockets_requests [simp]: "open_sockets (c\<lparr>requests := rs\<rparr>) = open_sockets c"
  by (simp add: open_sockets_def)

lemma open_sockets_disconnect:
  assumes "lifecycle_inv c"
  shows "open_sockets (disconnect c) = [] \<and> ws (disconnect c) = None"
proof (cases "ws c")
  case None
  with assms show ?thesis by (simp add: disconnect_def lifecycle_inv_def)
next
  case (Some h)
  with assms have o: "open_sockets c = [h]" by (simp add: lifecycle_inv_def)
  have "close_called ((sockets c)[h := (sockets c ! h)\<lparr>close_called := True\<rparr>] ! k)"
    if "k < length (sockets c)" for k
  proof (cases "k = h")
    case True
    with that show ?thesis by simp
  next
    case False
    have "k \<notin> set (open_sockets c)" using o False by simp
    with that have "close_called (sockets c ! k)" by (simp add: open_sockets_def)
    with False show ?thesis by simp
  qed
  then have "open_sockets (disconnect c) = []"
    using Some by (simp add: open_sockets_def disconnect_def)
  then show ?thesis using Some by (simp add: disconnect_def)
qed

lemma open_sockets_open_socket:
  "open_sockets (open_socket env c) = open_sockets c @ [length (sockets c)]"
proof -
  have "filter (\<lambda>h. \<not> close_called ((sockets c @ [s]) ! h)) [0..<length (sockets c)]
          = filter (\<lambda>h. \<not> close_called (sockets c ! h)) [0..<length (sockets c)]" for s
    by (rule filter_cong) (simp_all add: nth_append)
  then show ?thesis by (simp add: open_sockets_def open_socket_def Let_def)
qed

lemma ws_open_socket [simp]: "ws (open_socket env c) = Some (length (sockets c))"
  by (simp add: open_socket_def Let_def)

lemma suspended_open_socket [simp]: "suspended (open_socket env c) = suspended c"
  by (simp add: open_socket_def Let_def)

lemma steady_new_client: "steady (new_client address cid opts)"
  using idle_new_client [of address cid opts]
  by (simp add: steady_def lifecycle_inv_def open_sockets_def new_client_def)

lemma steady_connect:
  assumes "steady c"
  shows "length (open_sockets (connect env c)) \<le> 1
       \<and> steady (connect_resume env (connect env c))"
proof (cases "ws c")
  case None
  from assms have o: "open_sockets c = []" using None by (simp add: steady_def lifecycle_inv_def)
  have cc: "connect env c = open_socket env c" using None by (simp add: connect_def)
  have "steady (open_socket env c)"
    using assms o
    by (simp add: steady_def idle_open_socket lifecycle_inv_def open_sockets_open_socket)
  moreover have "connect_resume env (open_socket env c) = open_socket env c"
    using assms by (simp add: connect_resume_def steady_def)
  ultimately show ?thesis using cc o by (simp add: open_sockets_open_socket)
next
  case (Some h)
  from assms have inv: "lifecycle_inv c" and i: "idle c" and z: "suspended c = 0"
    by (simp_all add: steady_def)
  have d: "open_sockets (disconnect c) = [] \<and> ws (disconnect c) = None"
    by (rule open_sockets_disconnect [OF inv])
  have cc: "connect env c = (disconnect c)\<lparr>suspended := Suc 0\<rparr>"
    using Some z by (simp add: connect_def)
  have sd: "suspended (disconnect c) = 0"
    using z by (simp add: disconnect_def split: option.splits)
  have cr: "connect_resume env (connect env c)
              = open_socket env ((disconnect c)\<lparr>suspended := 0\<rparr>)"
    unfolding cc by (simp add: connect_resume_def)
  have "steady (open_socket env ((disconnect c)\<lparr>suspended := 0\<rparr>))"
    using d i
    by (simp add: steady_def idle_open_socket idle_disconnect lifecycle_inv_def
        open_sockets_open_socket)
  then show ?thesis using cc cr d by simp
qed

lemma steady_step:
  assumes "steady c" and "a \<noteq> Connect"
  shows "steady (step env c a)"
proof (cases a)
  case Connect
  with assms(2) show ?thesis by simp
next
  case Resume
  then show ?thesis using assms(1) by (simp add: connect_resume_def steady_def)
next
  case Disconnect
  have "open_sockets (disconnect c) = [] \<and> ws (disconnect c) = None"
    using assms(1) by (intro open_sockets_disconnect) (simp add: steady_def)
  moreover have "suspended (disconnect c) = suspended c"
    by (simp add: disconnect_def split: option.splits)
  ultimately show ?thesis
    using Disconnect assms(1) by (simp add: steady_def idle_disconnect lifecycle_inv_def)
next
  case (GetImages prompt)
  obtain rs where "fst (getImages env c prompt) = c\<lparr>requests := rs\<rparr>"
    using getImages_only_requests by blast
  then show ?thesis
    using GetImages assms(1) by (simp add: steady_def lifecycle_inv_def)
next
  case (Deliver h fr)
  then show ?thesis using assms(1) by (simp add: steady_def deliver_idle)
next
  case (Advance k)
  then show ?thesis using assms(1) by (simp add: steady_def advance_idle)
next
  case (TerminalEvent h)
  have "open_sockets (on_terminal_event h c) = open_sockets c"
    by (rule open_sockets_cong) (simp add: on_terminal_event_def map_update list_update_same_conv)
  moreover have "ws (on_terminal_event h c) = ws c" "suspended (on_terminal_event h c) = suspended c"
    by (simp_all add: on_terminal_event_def)
  ultimately show ?thesis
    using TerminalEvent assms(1)
    by (simp add: steady_def lifecycle_inv_def idle_on_terminal_event)
qed

lemma run_Cons: "run env c (a # acts) = run env (step env c a) acts"
  by (simp add: run_def)

lemma awaited_one_open:
  assumes "steady c"
  shows "length (open_sockets (run env c (take k (awaiting acts)))) \<le> 1"
  using assms
proof (induction acts arbitrary: c k)
  case Nil
  then show ?case
    by (simp add: awaiting_def run_def steady_def lifecycle_inv_def split: option.splits)
next
  case (Cons a acts)
  have here: "length (open_sockets c) \<le> 1"
    using Cons.prems by (simp add: steady_def lifecycle_inv_def split: option.splits)
  show ?case
  proof (cases "a = Connect")
    case True
    have aw: "awaiting (a # acts) = Connect # Resume # awaiting acts"
      using True by (simp add: awaiting_def)
    have sc: "length (open_sockets (connect env c)) \<le> 1"
      "steady (connect_resume env (connect env c))"
      using steady_connect [OF Cons.prems] by simp_all
    consider "k = 0" | "k = 1" | j where "k = Suc (Suc j)"
      by (metis One_nat_def not0_implies_Suc)
    then show ?thesis
    proof cases
      case 1
      then show ?thesis using here by (simp add: run_def)
    next
      case 2
      then show ?thesis using aw sc(1) by (simp add: run_def)
    next
      case 3
      have "run env c (take k (awaiting (a # acts)))
              = run env (connect_resume env (connect env c)) (take j (awaiting acts))"
        using aw 3 by (simp add: run_Cons)
      then show ?thesis using Cons.IH [OF sc(2)] by simp
    qed
  next
    case False
    have aw: "awaiting (a # acts) = a # awaiting acts"
      using False by (simp add: awaiting_def)
    have st: "steady (step env c a)" using Cons.prems False by (rule steady_step)
    show ?thesis
    proof (cases k)
      case 0
      then show ?thesis using here by (simp add: run_def)
    next
      case (Suc j)
      have "run env c (take k (awaiting (a # acts))) = run env (step env c a) (take j (awaiting acts))"
        using aw Suc by (simp add: run_Cons)
      then show ?thesis using Cons.IH [OF st] by simp
    qed
  qed
qed

text \<open>
  Claim C7, as amended. When every call of \<^verbatim>\<open>connect\<close> is awaited, at most one socket is
  open (constructed and not closed by the client) at any moment of any run from the
  construction of the client, the moment between a call of \<^verbatim>\<open>connect\<close> and its continuation
  included. And a call of \<^verbatim>\<open>connect\<close> on a client with a connection \<open>h\<close> closes \<open>h\<close> and
  drops the handle before it constructs anything: the new socket comes with the
  continuation, and is then the one the handle names.
\<close>

theorem connect_closes_existing:
  "length (open_sockets (run env (new_client address cid opts) (take k (awaiting acts)))) \<le> 1
   \<and> (ws c = Some h \<and> h < length (sockets c) \<longrightarrow>
        ws (connect env c) = None
        \<and> close_called (sockets (connect env c) ! h)
        \<and> length (sockets (connect env c)) = length (sockets c)
        \<and> length (sockets (connect_resume env (connect env c))) = Suc (length (sockets c))
        \<and> ws (connect_resume env (connect env c)) = Some (length (sockets c))
        \<and> \<not> close_called (sockets (connect_resume env (connect env c)) ! length (sockets c)))"
proof (intro conjI impI)
  show "length (open_sockets (run env (new_client address cid opts) (take k (awaiting acts)))) \<le> 1"
    by (rule awaited_one_open) (rule steady_new_client)
next
  assume a: "ws c = Some h \<and> h < length (sockets c)"
  then have cc: "connect env c
      = c\<lparr>sockets := (sockets c)[h := (sockets c ! h)\<lparr>close_called := True\<rparr>],
          ws := None, suspended := Suc (suspended c)\<rparr>"
    by (simp add: connect_def disconnect_def)
  show "ws (connect env c) = None" unfolding cc by simp
  show "close_called (sockets (connect env c) ! h)" unfolding cc using a by simp
  show "length (sockets (connect env c)) = length (sockets c)" unfolding cc by simp
  show "length (sockets (connect_resume env (connect env c))) = Suc (length (sockets c))"
    unfolding cc by (simp add: connect_resume_def open_socket_def Let_def)
  show "ws (connect_resume env (connect env c)) = Some (length (sockets c))"
    unfolding cc by (simp add: connect_resume_def open_socket_def Let_def)
  show "\<not> close_called (sockets (connect_resume env (connect env c)) ! length (sockets c))"
    unfolding cc by (simp add: connect_resume_def open_socket_def Let_def nth_append)
qed

text \<open>The definitions a run of calls of \<^verbatim>\<open>connect\<close> unfolds.\<close>

lemmas lifecycle_defs = run_def connect_def connect_resume_def open_socket_def
  disconnect_def new_client_def open_sockets_def ws_url_def is_secure_def auth_headers_def
  Let_def

text \<open>Two awaited calls of \<^verbatim>\<open>connect\<close>, and a call on the connected client.\<close>

theorem connect_closes_existing_witness:
  "take 4 (awaiting [Connect, Connect]) = [Connect, Resume, Connect, Resume]
   \<and> length (open_sockets (run sample_env (new_client ''127.0.0.1:8188'' ''me'' None)
        [Connect, Resume, Connect, Resume])) \<le> 1
   \<and> ws connected_client = Some 0
   \<and> ws (connect sample_env connected_client) = None
   \<and> close_called (sockets (connect sample_env connected_client) ! 0)
   \<and> length (sockets (connect sample_env connected_client)) = 1
   \<and> ws (connect_resume sample_env (connect sample_env connected_client)) = Some 1"
proof -
  have a: "take 4 (awaiting [Connect, Connect]) = [Connect, Resume, Connect, Resume]"
    by (simp add: awaiting_def)
  have b: "ws connected_client = Some 0 \<and> 0 < length (sockets connected_client)"
    by (simp add: connected_client_def)
  have l: "length (sockets connected_client) = 1" by (simp add: connected_client_def)
  have "length (open_sockets (run sample_env (new_client ''127.0.0.1:8188'' ''me'' None)
          (take 4 (awaiting [Connect, Connect])))) \<le> 1
      \<and> ws (connect sample_env connected_client) = None
      \<and> close_called (sockets (connect sample_env connected_client) ! 0)
      \<and> length (sockets (connect sample_env connected_client)) = length (sockets connected_client)
      \<and> ws (connect_resume sample_env (connect sample_env connected_client))
          = Some (length (sockets connected_client))"
    using connect_closes_existing
            [of sample_env "''127.0.0.1:8188''" "''me''" None 4 "[Connect, Connect]"
                connected_client 0] b
    by blast
  then show ?thesis using a b l by simp
qed

text \<open>
  Claim C7 as stated fails: on a connected client, two calls of \<^verbatim>\<open>connect\<close> that are not
  awaited leave two sockets open. The first closes socket \<open>0\<close> and is suspended, the second
  finds no connection and constructs socket \<open>1\<close>, and the first then constructs socket \<open>2\<close>
  without closing socket \<open>1\<close>.
\<close>

theorem overlapping_connects_counterexample:
  "ws (run sample_env (new_client ''127.0.0.1:8188'' ''me'' None) [Connect]) = Some 0
   \<and> open_sockets (run sample_env (new_client ''127.0.0.1:8188'' ''me'' None)
        [Connect, Connect, Connect, Resume]) = [1, 2]
   \<and> length (open_sockets (run sample_env (new_client ''127.0.0.1:8188'' ''me'' None)
        [Connect, Connect, Connect, Resume])) = 2"
  by (simp add: lifecycle_defs)

end
